theory Spec2Isabelle
  imports Main "HOL-Library.Word"
begin

section \<open>The Solana test client: data model\<close>

text \<open>
  The client of package \<open>solclient\<close> talks to three collaborators that live outside
  the repository: the RPC transport (\<open>c.RPC\<close>), the subscription transport (\<open>c.WS\<close>)
  and the transaction library (\<open>solana.NewTransaction\<close>, \<open>tx.Sign\<close>).  Keys, hashes,
  signatures and instructions are opaque values for the client; they are strings here.
\<close>

type_synonym PublicKey = string
type_synonym PrivateKey = string
type_synonym Hash = string
type_synonym Signature = string
type_synonym Instruction = string
type_synonym Subscription = nat

text \<open>\<open>rpc.CommitmentType\<close> is a string type with named constants.\<close>

datatype CommitmentType =
    CommitmentProcessed
  | CommitmentConfirmed
  | CommitmentFinalized
  | CommitmentOther string

text \<open>
  Every failure of the Go code is an \<open>error\<close> value.  The constructors record where the
  error was made: by a transport (RPC or websocket), by the transaction builder, by
  \<open>tx.Sign\<close> (a signer key that the resolver does not hold, or a failed signature), by
  \<open>queueTX\<close> (\<open>fmt.Errorf("transaction confirmation failed: %v", res.Value.Err)\<close>) or by
  a base58 parser.
\<close>

datatype error =
    TransportError string
  | BuildError string
  | SigningError PublicKey
  | SignFailed PublicKey string
  | ConfirmationFailed string
  | ParseError string

text \<open>
  A transaction as the client sees it: what it was built from, the keys that have to
  sign it (\<open>tx.Message.signerKeys()\<close>) and the signatures that \<open>tx.Sign\<close> appended.
\<close>

record Transaction =
  instructions :: "Instruction list"
  recent_blockhash :: Hash
  fee_payer :: PublicKey
  signer_keys :: "PublicKey list"
  signatures :: "Signature list"

text \<open>\<open>ws.SignatureResult\<close>: \<open>value_err\<close> is \<open>res.Value.Err\<close>, the on-chain execution error.\<close>

record SignatureResult =
  value_err :: "string option"

text \<open>
  Every call that leaves the client is logged, in the order in which it is made.
\<close>

datatype event =
    EvGetRecentBlockhash CommitmentType
  | EvNewTransaction "Instruction list" Hash PublicKey
  | EvSendTransactionWithOpts Transaction bool CommitmentType
  | EvSendTransaction Transaction
  | EvRequestAirdrop PublicKey "64 word" CommitmentType
  | EvSignatureSubscribe Signature CommitmentType
  | EvRecv Subscription
  | EvUnsubscribe Subscription
  | EvConnect string
  | EvGetGenesisHash

text \<open>
  The collaborators.  A transport may answer the same request differently at different
  times, so each of its answers is a function of the calls made so far and of the
  arguments of the call.  The library functions are pure.  A collaborator that fails
  gives a message; the client functions below wrap it in the \<open>error\<close> constructor of
  its origin, so that the origin of every returned error can be read off.  Every call
  is answered: a request that never returns is not part of this model.
\<close>

record env =
  GetRecentBlockhash :: "event list \<Rightarrow> CommitmentType \<Rightarrow> string + Hash"
  NewTransaction :: "Instruction list \<Rightarrow> Hash \<Rightarrow> PublicKey \<Rightarrow> string + Transaction"
  EncodeTree :: "Transaction \<Rightarrow> string \<Rightarrow> string option"
  SignWith :: "PrivateKey \<Rightarrow> Transaction \<Rightarrow> string + Signature"
  SendTransactionWithOpts ::
    "event list \<Rightarrow> Transaction \<Rightarrow> bool \<Rightarrow> CommitmentType \<Rightarrow> string + Signature"
  SendTransaction :: "event list \<Rightarrow> Transaction \<Rightarrow> string + Signature"
  RequestAirdrop :: "event list \<Rightarrow> PublicKey \<Rightarrow> 64 word \<Rightarrow> CommitmentType \<Rightarrow> string + Signature"
  SignatureSubscribe :: "event list \<Rightarrow> Signature \<Rightarrow> CommitmentType \<Rightarrow> string + Subscription"
  Recv :: "event list \<Rightarrow> Subscription \<Rightarrow> string + SignatureResult"
  Connect :: "event list \<Rightarrow> string \<Rightarrow> string + nat"
  PrivateKeyFromBase58 :: "string \<Rightarrow> string + PrivateKey"
  PublicKeyFromBase58 :: "string \<Rightarrow> string + PublicKey"
  PublicKeyOf :: "PrivateKey \<Rightarrow> PublicKey"
  GetGenesisHash :: "event list \<Rightarrow> string + Hash"

subsection \<open>The error group\<close>

text \<open>
  Modelled from the spec: \<open>errgroup.Group\<close> (golang.org/x/sync), a type the client uses
  and the repository does not define.  \<open>Go\<close> starts a task; a task that returns a
  non-nil error stores it if it is the first one; \<open>Wait\<close> returns once every started
  task has returned, with the stored error.  A background task of this client is the
  closure of \<open>queueTX\<close>, which captures a signature and a commitment.  \<open>pending\<close> holds
  the tasks that have not returned yet, \<open>err\<close> is the stored error.  \<open>completed\<close> is a
  history variable (not a field of the Go type): the tasks that returned, each with
  what it returned, oldest first.
\<close>

type_synonym task = "Signature \<times> CommitmentType"

record Group =
  pending :: "task list"
  completed :: "(task \<times> error option) list"
  err :: "error option"

definition Go :: "task \<Rightarrow> Group \<Rightarrow> Group" where
  "Go t g = g\<lparr>pending := pending g @ [t]\<rparr>"

definition task_returned :: "nat \<Rightarrow> error option \<Rightarrow> Group \<Rightarrow> Group" where
  "task_returned i r g =
     g\<lparr>pending := take i (pending g) @ drop (Suc i) (pending g),
       completed := completed g @ [(pending g ! i, r)],
       err := (case err g of None \<Rightarrow> r | Some e \<Rightarrow> Some e)\<rparr>"

subsection \<open>The client\<close>

text \<open>Of \<open>NetworkConfig\<close>, the fields that the modelled functions read.\<close>

record NetworkConfig =
  URLs :: "string list"
  PrivateKeys :: "string list"

record Wallet =
  PrivateKey :: PrivateKey

record Client =
  Config :: NetworkConfig
  Wallets :: "Wallet list"
  DefaultWallet :: "Wallet option"
  txErrGroup :: Group
  queueTransactions :: bool
  RPC :: string
  WS :: nat

text \<open>The state of a run: the client and the log of the calls made so far.\<close>

record World =
  client :: Client
  trace :: "event list"

definition emit :: "event \<Rightarrow> World \<Rightarrow> World" where
  "emit ev w = w\<lparr>trace := trace w @ [ev]\<rparr>"

section \<open>Signing\<close>

text \<open>
  Modelled from the spec: \<open>tx.Sign\<close> of the transaction library, which the repository
  calls and does not define.  It asks the resolver for the key of every account that
  has to sign, in order, and fails at the first one the resolver does not hold.
\<close>

fun sign_keys ::
  "env \<Rightarrow> (PublicKey \<Rightarrow> PrivateKey option) \<Rightarrow> Transaction \<Rightarrow> PublicKey list \<Rightarrow>
   Signature list \<Rightarrow> error + Signature list" where
  "sign_keys en getter tx [] sigs = Inr sigs"
| "sign_keys en getter tx (k # ks) sigs =
     (case getter k of
        None \<Rightarrow> Inl (SigningError k)
      | Some pk \<Rightarrow>
          (case SignWith en pk tx of
             Inl m \<Rightarrow> Inl (SignFailed k m)
           | Inr s \<Rightarrow> sign_keys en getter tx ks (sigs @ [s])))"

definition Sign ::
  "env \<Rightarrow> (PublicKey \<Rightarrow> PrivateKey option) \<Rightarrow> Transaction \<Rightarrow> error + Transaction" where
  "Sign en getter tx =
     (case sign_keys en getter tx (signer_keys tx) (signatures tx) of
        Inl e \<Rightarrow> Inl e
      | Inr sigs \<Rightarrow> Inr (tx\<lparr>signatures := sigs\<rparr>))"

section \<open>Sending transactions\<close>

text \<open>
  \<open>TXSync\<close>: fetch a blockhash, build, print, sign, submit with options, subscribe for
  the signature at the caller's commitment, receive once.  The deferred
  \<open>sub.Unsubscribe()\<close> runs on both returns that follow the subscription.  The result of
  \<open>sub.Recv()\<close> is only logged.
\<close>

definition TXSync ::
  "env \<Rightarrow> string \<Rightarrow> CommitmentType \<Rightarrow> Instruction list \<Rightarrow>
   (PublicKey \<Rightarrow> PrivateKey option) \<Rightarrow> PublicKey \<Rightarrow> World \<Rightarrow> error option \<times> World" where
  "TXSync en name commitment instr signerFunc payer w =
    (let w1 = emit (EvGetRecentBlockhash CommitmentFinalized) w in
     case GetRecentBlockhash en (trace w) CommitmentFinalized of
       Inl m \<Rightarrow> (Some (TransportError m), w1)
     | Inr recent \<Rightarrow>
    (let w2 = emit (EvNewTransaction instr recent payer) w1 in
     case NewTransaction en instr recent payer of
       Inl m \<Rightarrow> (Some (BuildError m), w2)
     | Inr tx \<Rightarrow>
    (case EncodeTree en tx name of
       Some m \<Rightarrow> (Some (BuildError m), w2)
     | None \<Rightarrow>
    (case Sign en signerFunc tx of
       Inl e \<Rightarrow> (Some e, w2)
     | Inr stx \<Rightarrow>
    (let w3 = emit (EvSendTransactionWithOpts stx False commitment) w2 in
     case SendTransactionWithOpts en (trace w2) stx False commitment of
       Inl m \<Rightarrow> (Some (TransportError m), w3)
     | Inr sig \<Rightarrow>
    (let w4 = emit (EvSignatureSubscribe sig commitment) w3 in
     case SignatureSubscribe en (trace w3) sig commitment of
       Inl m \<Rightarrow> (Some (TransportError m), w4)
     | Inr sub \<Rightarrow>
    (let w5 = emit (EvRecv sub) w4 in
     case Recv en (trace w4) sub of
       Inl m \<Rightarrow> (Some (TransportError m), emit (EvUnsubscribe sub) w5)
     | Inr res \<Rightarrow> (None, emit (EvUnsubscribe sub) w5))))))))"

text \<open>
  The body of the task that \<open>queueTX\<close> hands to the error group.  It runs against the
  log alone: it touches no field of the client.
\<close>

definition confirm_task ::
  "env \<Rightarrow> task \<Rightarrow> event list \<Rightarrow> error option \<times> event list" where
  "confirm_task en t tr =
    (let tr1 = tr @ [EvSignatureSubscribe (fst t) (snd t)] in
     case SignatureSubscribe en tr (fst t) (snd t) of
       Inl m \<Rightarrow> (Some (TransportError m), tr1)
     | Inr sub \<Rightarrow>
    (let tr2 = tr1 @ [EvRecv sub] in
     case Recv en tr1 sub of
       Inl m \<Rightarrow> (Some (TransportError m), tr2 @ [EvUnsubscribe sub])
     | Inr res \<Rightarrow>
    (case value_err res of
       Some x \<Rightarrow> (Some (ConfirmationFailed x), tr2 @ [EvUnsubscribe sub])
     | None \<Rightarrow> (None, tr2 @ [EvUnsubscribe sub]))))"

definition queueTX :: "Signature \<Rightarrow> CommitmentType \<Rightarrow> World \<Rightarrow> World" where
  "queueTX sig commitment w =
     w\<lparr>client := (client w)\<lparr>txErrGroup := Go (sig, commitment) (txErrGroup (client w))\<rparr>\<rparr>"

text \<open>\<open>TXAsync\<close>: the same steps up to signing, then one plain submit and \<open>queueTX\<close>.\<close>

definition TXAsync ::
  "env \<Rightarrow> string \<Rightarrow> Instruction list \<Rightarrow> (PublicKey \<Rightarrow> PrivateKey option) \<Rightarrow> PublicKey \<Rightarrow>
   World \<Rightarrow> error option \<times> World" where
  "TXAsync en name instr signerFunc payer w =
    (let w1 = emit (EvGetRecentBlockhash CommitmentFinalized) w in
     case GetRecentBlockhash en (trace w) CommitmentFinalized of
       Inl m \<Rightarrow> (Some (TransportError m), w1)
     | Inr recent \<Rightarrow>
    (let w2 = emit (EvNewTransaction instr recent payer) w1 in
     case NewTransaction en instr recent payer of
       Inl m \<Rightarrow> (Some (BuildError m), w2)
     | Inr tx \<Rightarrow>
    (case EncodeTree en tx name of
       Some m \<Rightarrow> (Some (BuildError m), w2)
     | None \<Rightarrow>
    (case Sign en signerFunc tx of
       Inl e \<Rightarrow> (Some e, w2)
     | Inr stx \<Rightarrow>
    (let w3 = emit (EvSendTransaction stx) w2 in
     case SendTransaction en (trace w2) stx of
       Inl m \<Rightarrow> (Some (TransportError m), w3)
     | Inr sig \<Rightarrow> (None, queueTX sig CommitmentConfirmed w3))))))"

section \<open>Background confirmation and \<open>WaitForEvents\<close>\<close>

text \<open>
  The tasks of the error group run concurrently with the caller.  Each one is taken as
  one step here: \<open>run_pending en i\<close> lets the pending task at position \<open>i\<close> run to its
  return against the log as it stands, and hands what it returned to the group.  A
  scheduler may take such a step between any two calls of the client.
\<close>

definition run_pending :: "env \<Rightarrow> nat \<Rightarrow> World \<Rightarrow> World" where
  "run_pending en i w =
    (let g = txErrGroup (client w) in
     if i < length (pending g) then
       (case confirm_task en (pending g ! i) (trace w) of
          (r, tr) \<Rightarrow> w\<lparr>client := (client w)\<lparr>txErrGroup := task_returned i r g\<rparr>, trace := tr\<rparr>)
     else w)"

lemma run_pending_decreases:
  "pending (txErrGroup (client w)) \<noteq> [] \<Longrightarrow>
   i < length (pending (txErrGroup (client w))) \<Longrightarrow>
   length (pending (txErrGroup (client (run_pending en i w))))
     < length (pending (txErrGroup (client w)))"
  by (cases "pending (txErrGroup (client w))")
     (auto simp: run_pending_def task_returned_def Let_def split: prod.splits)

text \<open>
  \<open>Group.Wait\<close> returns when no task is pending.  Until then the remaining tasks return
  in an order that the program does not control: \<open>sched\<close> names, at each step, which of
  the pending tasks returns next (position \<open>i mod n\<close> of the \<open>n\<close> pending ones; the
  oldest one when \<open>sched\<close> is used up).
\<close>

function wait_all :: "env \<Rightarrow> nat list \<Rightarrow> World \<Rightarrow> World" where
  "wait_all en sched w =
    (if pending (txErrGroup (client w)) = [] then w
     else (case sched of
             [] \<Rightarrow> wait_all en [] (run_pending en 0 w)
           | i # rest \<Rightarrow>
               wait_all en rest
                 (run_pending en (i mod length (pending (txErrGroup (client w)))) w)))"
  by pat_completeness auto
termination
  by (relation "measure (\<lambda>(en, sched, w). length (pending (txErrGroup (client w))))")
     (auto intro!: run_pending_decreases)

declare wait_all.simps [simp del]

definition WaitForEvents :: "env \<Rightarrow> nat list \<Rightarrow> World \<Rightarrow> error option \<times> World" where
  "WaitForEvents en sched w =
    (let w' = wait_all en sched w in (err (txErrGroup (client w')), w'))"

section \<open>Airdrops and wallets\<close>





text \<open>
  A Go panic ends the call without a return value.  The modelled functions panic in two
  places: at the run-time check of an index expression, and in \<open>pk.PublicKey()\<close>, which
  slices the private key at byte 32 and so faults on a shorter key.
\<close>

datatype panic = IndexOutOfRange int nat | SliceBoundsOutOfRange nat nat







section \<open>Construction\<close>

text \<open>
  \<open>NewClient\<close> reads \<open>cfg.URLs[0]\<close> and \<open>cfg.URLs[1]\<close>, in this order, and each index
  expression is checked at run time.  \<open>rpc.New\<close> returns a client and no error; only
  \<open>ws.Connect\<close> can fail.  \<open>tr\<close> is the log before the call.
\<close>

definition NewClient :: "env \<Rightarrow> NetworkConfig \<Rightarrow> event list \<Rightarrow> panic + (error + World)" where
  "NewClient en cfg tr =
    (if length (URLs cfg) < 1 then Inl (IndexOutOfRange 0 (length (URLs cfg)))
     else if length (URLs cfg) < 2 then Inl (IndexOutOfRange 1 (length (URLs cfg)))
     else
       (case Connect en tr (URLs cfg ! 1) of
          Inl m \<Rightarrow> Inr (Inl (TransportError m))
        | Inr wsc \<Rightarrow>
            Inr (Inr \<lparr>client =
                       \<lparr>Config = cfg, Wallets = [], DefaultWallet = None,
                        txErrGroup = \<lparr>pending = [], completed = [], err = None\<rparr>,
                        queueTransactions = False, RPC = URLs cfg ! 0, WS = wsc\<rparr>,
                     trace = tr @ [EvConnect (URLs cfg ! 1)]\<rparr>)))"

section \<open>Chain identity\<close>

text \<open>
  Modelled from the spec: \<open>ChainID\<close> of package \<open>client\<close> and the three genesis-hash
  constants \<open>DevnetGenesisHash\<close>, \<open>TestnetGenesisHash\<close> and \<open>MainnetGenesisHash\<close>; the
  repository's sources here hold only the test that calls them.  The function asks the
  transport for the genesis hash and looks it up among the known hashes; any other hash
  is "localnet".  The values of the constants are parameters.
\<close>

record GenesisHashes =
  DevnetGenesisHash :: Hash
  TestnetGenesisHash :: Hash
  MainnetGenesisHash :: Hash

definition network_of :: "GenesisHashes \<Rightarrow> Hash \<Rightarrow> string" where
  "network_of k h =
    (if h = DevnetGenesisHash k then ''devnet''
     else if h = TestnetGenesisHash k then ''testnet''
     else if h = MainnetGenesisHash k then ''mainnet''
     else ''localnet'')"

definition ChainID :: "env \<Rightarrow> GenesisHashes \<Rightarrow> event list \<Rightarrow> (error + string) \<times> event list" where
  "ChainID en k tr =
    (case GetGenesisHash en tr of
       Inl m \<Rightarrow> (Inl (TransportError m), tr @ [EvGetGenesisHash])
     | Inr h \<Rightarrow> (Inr (network_of k h), tr @ [EvGetGenesisHash]))"

text \<open>\<open>n\<close> calls of \<open>ChainID\<close>, one after the other; the results in the order of the calls.\<close>

fun ChainID_calls ::
  "env \<Rightarrow> GenesisHashes \<Rightarrow> nat \<Rightarrow> event list \<Rightarrow> (error + string) list \<times> event list" where
  "ChainID_calls en k 0 tr = ([], tr)"
| "ChainID_calls en k (Suc n) tr =
    (case ChainID en k tr of
       (r, tr') \<Rightarrow> (case ChainID_calls en k n tr' of (rs, tr'') \<Rightarrow> (r # rs, tr'')))"

section \<open>Observations on a run\<close>

text \<open>What a log says: the commitments of the blockhash fetches, the transactions that
  were built, the transactions that were submitted, and the subscriptions.\<close>

fun blockhash_fetches :: "event list \<Rightarrow> CommitmentType list" where
  "blockhash_fetches [] = []"
| "blockhash_fetches (EvGetRecentBlockhash c # evs) = c # blockhash_fetches evs"
| "blockhash_fetches (_ # evs) = blockhash_fetches evs"

fun builds :: "event list \<Rightarrow> (Instruction list \<times> Hash \<times> PublicKey) list" where
  "builds [] = []"
| "builds (EvNewTransaction i h p # evs) = (i, h, p) # builds evs"
| "builds (_ # evs) = builds evs"


fun subscriptions :: "event list \<Rightarrow> (Signature \<times> CommitmentType) list" where
  "subscriptions [] = []"
| "subscriptions (EvSignatureSubscribe sg c # evs) = (sg, c) # subscriptions evs"
| "subscriptions (_ # evs) = subscriptions evs"

text \<open>The events that a call added to the log of \<open>w\<close>.\<close>

definition added :: "World \<Rightarrow> World \<Rightarrow> event list" where
  "added w w' = drop (length (trace w)) (trace w')"


fun is_confirmation_failure :: "error option \<Rightarrow> bool" where
  "is_confirmation_failure (Some (ConfirmationFailed x)) = True"
| "is_confirmation_failure _ = False"

definition failed_on_chain :: "Group \<Rightarrow> nat" where
  "failed_on_chain g = length (filter (\<lambda>tr. is_confirmation_failure (snd tr)) (completed g))"



section \<open>A test double for the collaborators\<close>

text \<open>
  A validator that answers every request and executes every transaction: a transaction
  is signed by its payer alone, a submit returns the first signature of the transaction,
  and a subscription is numbered by the length of the log.  Single answers are changed
  by record update where a failure is wanted.
\<close>

definition validator :: env where
  "validator =
    \<lparr>GetRecentBlockhash = (\<lambda>tr c. Inr ''blockhash-1''),
     NewTransaction = (\<lambda>instr h p.
        Inr \<lparr>instructions = instr, recent_blockhash = h, fee_payer = p,
             signer_keys = [p], signatures = []\<rparr>),
     EncodeTree = (\<lambda>tx name. None),
     SignWith = (\<lambda>pk tx. Inr (''sig:'' @ pk)),
     SendTransactionWithOpts = (\<lambda>tr tx sp c.
        case signatures tx of [] \<Rightarrow> Inl ''unsigned'' | sg # _ \<Rightarrow> Inr sg),
     SendTransaction = (\<lambda>tr tx.
        case signatures tx of [] \<Rightarrow> Inl ''unsigned'' | sg # _ \<Rightarrow> Inr sg),
     RequestAirdrop = (\<lambda>tr k amount c. Inr (''airdrop:'' @ k)),
     SignatureSubscribe = (\<lambda>tr sg c. Inr (length tr)),
     Recv = (\<lambda>tr sub. Inr \<lparr>value_err = None\<rparr>),
     Connect = (\<lambda>tr url. Inr 7),
     PrivateKeyFromBase58 = (\<lambda>s. Inr s),
     PublicKeyFromBase58 = (\<lambda>s. Inr s),
     PublicKeyOf = (\<lambda>pk. ''pub:'' @ pk),
     GetGenesisHash = (\<lambda>tr. Inr ''GH7ome3EiwEr7tu9JuTh2dpYWBJK3z69Xm1ZE3MEE6JC'')\<rparr>"

definition test_config :: NetworkConfig where
  "test_config = \<lparr>URLs = [''http://localhost:8899'', ''ws://localhost:8900''],
                  PrivateKeys = [''key-a:0123456789abcdef0123456789'',
                                 ''key-b:0123456789abcdef0123456789'']\<rparr>"

text \<open>The client that \<open>NewClient\<close> makes from \<open>test_config\<close> against \<open>validator\<close>.\<close>

definition new_world :: World where
  "new_world =
    \<lparr>client = \<lparr>Config = test_config, Wallets = [], DefaultWallet = None,
               txErrGroup = \<lparr>pending = [], completed = [], err = None\<rparr>,
               queueTransactions = False, RPC = ''http://localhost:8899'', WS = 7\<rparr>,
     trace = [EvConnect ''ws://localhost:8900'']\<rparr>"

text \<open>The resolver of the tests: it holds the key of one account.\<close>

definition holds_key :: "PublicKey \<Rightarrow> PrivateKey \<Rightarrow> PublicKey \<Rightarrow> PrivateKey option" where
  "holds_key pub priv key = (if key = pub then Some priv else None)"


text \<open>
  A ledger on which the transaction signed by "bob-key" fails in execution, and the
  state after two asynchronous sends against it.
\<close>

definition flaky_ledger :: env where
  "flaky_ledger = validator\<lparr>Recv := \<lambda>tr sub. Inr \<lparr>value_err =
      (if last tr = EvSignatureSubscribe ''sig:bob-key'' CommitmentConfirmed
       then Some ''InstructionError'' else None)\<rparr>\<rparr>"



text \<open>
  The mock server of \<open>TestClient_Reader_ChainID\<close>: it answers the n-th genesis-hash
  request with the n-th hash of a list.  \<open>sample_hashes\<close> are three distinct stand-ins
  for the constants.
\<close>

definition mock_server :: "Hash list \<Rightarrow> env" where
  "mock_server genesisHashes = validator\<lparr>GetGenesisHash := \<lambda>tr.
      case drop (length (filter (\<lambda>ev. ev = EvGetGenesisHash) tr)) genesisHashes of
        [] \<Rightarrow> Inl ''no response''
      | h # _ \<Rightarrow> Inr h\<rparr>"

definition sample_hashes :: GenesisHashes where
  "sample_hashes = \<lparr>DevnetGenesisHash = ''devnet-genesis'', TestnetGenesisHash = ''testnet-genesis'',
                    MainnetGenesisHash = ''mainnet-genesis''\<rparr>"

text \<open>Whether \<open>NewClient\<close> returned an error (and did not panic).\<close>

fun constructor_failed :: "panic + (error + World) \<Rightarrow> bool" where
  "constructor_failed (Inr (Inl e)) = True"
| "constructor_failed _ = False"

section \<open>Properties of the send paths\<close>

lemma added_append: "trace w' = trace w @ evs \<Longrightarrow> added w w' = evs"
  by (simp add: added_def)

lemma sign_keys_error_origin:
  "sign_keys en getter tx ks sigs = Inl e \<Longrightarrow>
   (\<exists>k \<in> set ks. (e = SigningError k \<and> getter k = None) \<or> (\<exists>m. e = SignFailed k m))"
  by (induction ks arbitrary: sigs) (auto split: option.splits sum.splits)

lemma Sign_error_origin:
  "Sign en getter tx = Inl e \<Longrightarrow>
   (\<exists>k \<in> set (signer_keys tx).
      (e = SigningError k \<and> getter k = None) \<or> (\<exists>m. e = SignFailed k m))"
  by (auto simp: Sign_def split: sum.splits dest: sign_keys_error_origin)

lemma TXSync_never_confirmation_failure:
  "fst (TXSync en name commitment instr signerFunc payer w) \<noteq> Some (ConfirmationFailed x)"
  by (auto simp: TXSync_def emit_def Let_def split: sum.splits option.splits
           dest: Sign_error_origin)

text \<open>
  C1.  \<open>TXSync\<close> is to return success only when the confirmation result carries no
  on-chain execution error, and to return that error otherwise.  The code returns nil
  after every successful \<open>sub.Recv()\<close>: at a run in which every step succeeds and the
  confirmation result carries the execution error "InstructionError", \<open>TXSync\<close>
  returns nil, while the task of \<open>queueTX\<close> returns an error for the same result.
\<close>

theorem TXSync_drops_execution_error:
  "fst (TXSync (validator\<lparr>Recv := \<lambda>tr sub. Inr \<lparr>value_err = Some ''InstructionError''\<rparr>\<rparr>)
          ''transfer'' CommitmentConfirmed [''transfer 1''] (holds_key ''alice'' ''alice-key'')
          ''alice'' new_world) = None \<and>
   fst (confirm_task (validator\<lparr>Recv := \<lambda>tr sub. Inr \<lparr>value_err = Some ''InstructionError''\<rparr>\<rparr>)
          (''sig:alice-key'', CommitmentConfirmed) (trace new_world))
     = Some (ConfirmationFailed ''InstructionError'')"
  by (simp add: TXSync_def confirm_task_def validator_def new_world_def holds_key_def Sign_def
        emit_def Let_def)

text \<open>
  C8.  \<open>TXSync\<close> and \<open>TXAsync\<close> fetch the recent blockhash exactly once, at the
  finalized commitment, whatever commitment the caller asks for; and the transaction,
  when one is built, is built with the blockhash that this fetch returned.
\<close>

theorem blockhash_fetched_at_finalized:
  "blockhash_fetches (added w (snd (TXSync en name commitment instr signerFunc payer w)))
     = [CommitmentFinalized] \<and>
   blockhash_fetches (added w (snd (TXAsync en name instr signerFunc payer w)))
     = [CommitmentFinalized] \<and>
   builds (added w (snd (TXSync en name commitment instr signerFunc payer w)))
     = (case GetRecentBlockhash en (trace w) CommitmentFinalized of
          Inl m \<Rightarrow> [] | Inr recent \<Rightarrow> [(instr, recent, payer)]) \<and>
   builds (added w (snd (TXAsync en name instr signerFunc payer w)))
     = (case GetRecentBlockhash en (trace w) CommitmentFinalized of
          Inl m \<Rightarrow> [] | Inr recent \<Rightarrow> [(instr, recent, payer)])"
  by (simp add: TXSync_def TXAsync_def queueTX_def added_def emit_def Let_def
           split: sum.splits option.splits)

lemmas run_defs = TXSync_def TXAsync_def queueTX_def Go_def Sign_def emit_def added_def
  confirm_task_def run_pending_def task_returned_def WaitForEvents_def wait_all.simps
  validator_def new_world_def test_config_def holds_key_def NewClient_def Let_def

subsection \<open>Signing\<close>

lemma sign_keys_unresolved:
  "k \<in> set ks \<Longrightarrow> getter k = None \<Longrightarrow> \<exists>e. sign_keys en getter tx ks sigs = Inl e"
  by (induction ks arbitrary: sigs) (auto split: option.splits sum.splits)

lemma Sign_unresolved:
  assumes "k \<in> set (signer_keys tx)" and "getter k = None"
  shows "\<exists>k' \<in> set (signer_keys tx).
           (Sign en getter tx = Inl (SigningError k') \<and> getter k' = None) \<or>
           (\<exists>m. Sign en getter tx = Inl (SignFailed k' m))"
proof -
  from sign_keys_unresolved [of k "signer_keys tx" getter en tx "signatures tx"] assms obtain e
    where e: "sign_keys en getter tx (signer_keys tx) (signatures tx) = Inl e"
    by blast
  then have "Sign en getter tx = Inl e"
    by (simp add: Sign_def)
  with Sign_error_origin [of en getter tx e] show ?thesis
    by auto
qed

text \<open>
  C7.  When the transaction that was built needs the signature of an account whose key
  the resolver does not hold, \<open>TXSync\<close> and \<open>TXAsync\<close> return an error, have made no
  call but the blockhash fetch and the build (so no submit, no subscription and no second
  attempt), and leave the client, with its error group, as it was.  When printing the
  transaction succeeds, the error is the one of \<open>tx.Sign\<close>: the key of an account was not
  found, or a signature before that one failed.
\<close>

theorem unresolved_signer_never_submits:
  assumes fetch: "GetRecentBlockhash en (trace w) CommitmentFinalized = Inr recent"
    and build: "NewTransaction en instr recent payer = Inr tx"
    and need: "k \<in> set (signer_keys tx)"
    and missing: "signerFunc k = None"
  shows "fst (TXSync en name commitment instr signerFunc payer w) \<noteq> None \<and>
         fst (TXAsync en name instr signerFunc payer w) \<noteq> None \<and>
         (EncodeTree en tx name = None \<longrightarrow>
            (\<exists>k' \<in> set (signer_keys tx).
               (fst (TXSync en name commitment instr signerFunc payer w) = Some (SigningError k')
                  \<and> fst (TXAsync en name instr signerFunc payer w) = Some (SigningError k')
                  \<and> signerFunc k' = None) \<or>
               (\<exists>m. fst (TXSync en name commitment instr signerFunc payer w) = Some (SignFailed k' m)
                  \<and> fst (TXAsync en name instr signerFunc payer w) = Some (SignFailed k' m)))) \<and>
         added w (snd (TXSync en name commitment instr signerFunc payer w))
           = [EvGetRecentBlockhash CommitmentFinalized, EvNewTransaction instr recent payer] \<and>
         added w (snd (TXAsync en name instr signerFunc payer w))
           = [EvGetRecentBlockhash CommitmentFinalized, EvNewTransaction instr recent payer] \<and>
         client (snd (TXSync en name commitment instr signerFunc payer w)) = client w \<and>
         client (snd (TXAsync en name instr signerFunc payer w)) = client w"
proof -
  from Sign_unresolved [of k tx signerFunc en] need missing obtain k' where
    k': "k' \<in> set (signer_keys tx)"
    and s: "(Sign en signerFunc tx = Inl (SigningError k') \<and> signerFunc k' = None) \<or>
            (\<exists>m. Sign en signerFunc tx = Inl (SignFailed k' m))"
    by blast
  from s obtain e where e: "Sign en signerFunc tx = Inl e"
    by auto
  have sync: "TXSync en name commitment instr signerFunc payer w =
      (case EncodeTree en tx name of Some m \<Rightarrow> Some (BuildError m) | None \<Rightarrow> Some e,
       emit (EvNewTransaction instr recent payer) (emit (EvGetRecentBlockhash CommitmentFinalized) w))"
    by (simp add: TXSync_def fetch build e Let_def split: option.splits)
  have async: "TXAsync en name instr signerFunc payer w =
      (case EncodeTree en tx name of Some m \<Rightarrow> Some (BuildError m) | None \<Rightarrow> Some e,
       emit (EvNewTransaction instr recent payer) (emit (EvGetRecentBlockhash CommitmentFinalized) w))"
    by (simp add: TXAsync_def fetch build e Let_def split: option.splits)
  show ?thesis
    using k' s e
    by (auto simp: sync async emit_def added_def split: option.splits)
qed

theorem unresolved_signer_never_submits_witness:
  "GetRecentBlockhash validator (trace new_world) CommitmentFinalized = Inr ''blockhash-1'' \<and>
   NewTransaction validator [''transfer 1''] ''blockhash-1'' ''alice''
     = Inr \<lparr>instructions = [''transfer 1''], recent_blockhash = ''blockhash-1'',
            fee_payer = ''alice'', signer_keys = [''alice''], signatures = []\<rparr> \<and>
   holds_key ''bob'' ''bob-key'' ''alice'' = None \<and>
   fst (TXSync validator ''transfer'' CommitmentConfirmed [''transfer 1'']
          (holds_key ''bob'' ''bob-key'') ''alice'' new_world) = Some (SigningError ''alice'') \<and>
   fst (TXAsync validator ''transfer'' [''transfer 1'']
          (holds_key ''bob'' ''bob-key'') ''alice'' new_world) = Some (SigningError ''alice'') \<and>
   added new_world (snd (TXSync validator ''transfer'' CommitmentConfirmed [''transfer 1'']
          (holds_key ''bob'' ''bob-key'') ''alice'' new_world))
     = [EvGetRecentBlockhash CommitmentFinalized,
        EvNewTransaction [''transfer 1''] ''blockhash-1'' ''alice''] \<and>
   client (snd (TXAsync validator ''transfer'' [''transfer 1'']
          (holds_key ''bob'' ''bob-key'') ''alice'' new_world)) = client new_world"
  using unresolved_signer_never_submits [of validator new_world "''blockhash-1''" "[''transfer 1'']" "''alice''"
      "\<lparr>instructions = [''transfer 1''], recent_blockhash = ''blockhash-1'',
            fee_payer = ''alice'', signer_keys = [''alice''], signatures = []\<rparr>"
      "''alice''" "holds_key ''bob'' ''bob-key''" "''transfer''" CommitmentConfirmed]
  by (simp add: validator_def holds_key_def TXSync_def TXAsync_def Sign_def emit_def added_def
        new_world_def Let_def)

subsection \<open>The error group\<close>

lemma confirm_task_completed:
  assumes "SignatureSubscribe en tr sg c = Inr sub"
    and "Recv en (tr @ [EvSignatureSubscribe sg c]) sub = Inr res"
  shows "confirm_task en (sg, c) tr =
           (map_option ConfirmationFailed (value_err res),
            tr @ [EvSignatureSubscribe sg c, EvRecv sub, EvUnsubscribe sub])"
  using assms by (simp add: confirm_task_def Let_def split: option.splits)
























subsection \<open>Asynchronous sends\<close>

lemma run_pending_task:
  assumes i: "i < length (pending (txErrGroup (client w)))"
    and t: "pending (txErrGroup (client w)) ! i = (sg, c)"
  shows "added w (run_pending en i w) =
           (case SignatureSubscribe en (trace w) sg c of
              Inl m \<Rightarrow> [EvSignatureSubscribe sg c]
            | Inr sub \<Rightarrow> [EvSignatureSubscribe sg c, EvRecv sub, EvUnsubscribe sub])"
    and "completed (txErrGroup (client (run_pending en i w))) =
           completed (txErrGroup (client w)) @ [((sg, c), fst (confirm_task en (sg, c) (trace w)))]"
    and "err (txErrGroup (client (run_pending en i w))) =
           (case err (txErrGroup (client w)) of
              Some e \<Rightarrow> Some e
            | None \<Rightarrow> fst (confirm_task en (sg, c) (trace w)))"
    and "fst (confirm_task en (sg, c) (trace w)) =
           (case SignatureSubscribe en (trace w) sg c of
              Inl m \<Rightarrow> Some (TransportError m)
            | Inr sub \<Rightarrow>
                (case Recv en (trace w @ [EvSignatureSubscribe sg c]) sub of
                   Inl m \<Rightarrow> Some (TransportError m)
                 | Inr res \<Rightarrow> map_option ConfirmationFailed (value_err res)))"
  using i t
  by (auto simp: run_pending_def task_returned_def confirm_task_def added_def Let_def
           split: sum.splits option.splits prod.splits)

text \<open>
  C3 as stated fails: after a \<open>TXAsync\<close> call that returned nil, a task whose
  \<open>sub.Recv()\<close> fails records an error in the group although no on-chain confirmation
  result was received, so none that contains an error.
\<close>

theorem queueTX_records_transport_error_counterexample:
  "fst (TXAsync (validator\<lparr>Recv := \<lambda>tr sub. Inl ''connection closed''\<rparr>) ''first''
          [''transfer 1''] (holds_key ''alice'' ''alice-key'') ''alice'' new_world) = None \<and>
   pending (txErrGroup (client
      (snd (TXAsync (validator\<lparr>Recv := \<lambda>tr sub. Inl ''connection closed''\<rparr>) ''first''
              [''transfer 1''] (holds_key ''alice'' ''alice-key'') ''alice'' new_world))))
     = [(''sig:alice-key'', CommitmentConfirmed)] \<and>
   Recv (validator\<lparr>Recv := \<lambda>tr sub. Inl ''connection closed''\<rparr>)
      (trace
         (snd (TXAsync (validator\<lparr>Recv := \<lambda>tr sub. Inl ''connection closed''\<rparr>) ''first''
                 [''transfer 1''] (holds_key ''alice'' ''alice-key'') ''alice'' new_world))
       @ [EvSignatureSubscribe ''sig:alice-key'' CommitmentConfirmed]) 4
     = Inl ''connection closed'' \<and>
   err (txErrGroup (client (run_pending
      (validator\<lparr>Recv := \<lambda>tr sub. Inl ''connection closed''\<rparr>) 0
      (snd (TXAsync (validator\<lparr>Recv := \<lambda>tr sub. Inl ''connection closed''\<rparr>) ''first''
              [''transfer 1''] (holds_key ''alice'' ''alice-key'') ''alice'' new_world)))))
     = Some (TransportError ''connection closed'') \<and>
   failed_on_chain (txErrGroup (client (run_pending
      (validator\<lparr>Recv := \<lambda>tr sub. Inl ''connection closed''\<rparr>) 0
      (snd (TXAsync (validator\<lparr>Recv := \<lambda>tr sub. Inl ''connection closed''\<rparr>) ''first''
              [''transfer 1''] (holds_key ''alice'' ''alice-key'') ''alice'' new_world))))) = 0"
  by (simp add: failed_on_chain_def run_defs)

text \<open>
  C3 (amended).  A \<open>TXAsync\<close> call that returns nil has fetched the blockhash, built the
  transaction and submitted it once, and nothing more: it made no subscription itself.
  It has added to the error group one task, for the signature that the submit returned,
  at the confirmed commitment.  Whenever that task runs, it subscribes for that
  signature at the confirmed commitment, receives once if the subscription was made,
  and unsubscribes.  It returns an error to the group if and only if the subscription
  or the receive failed, or the confirmation result carries an on-chain error; the
  group stores that error unless it already holds an earlier one.
\<close>

theorem TXAsync_registers_confirmation_task:
  assumes ok: "TXAsync en name instr signerFunc payer w = (None, w')"
  shows "\<exists>recent stx sg.
           added w w' = [EvGetRecentBlockhash CommitmentFinalized,
                         EvNewTransaction instr recent payer, EvSendTransaction stx] \<and>
           SendTransaction en
             (trace w @ [EvGetRecentBlockhash CommitmentFinalized,
                         EvNewTransaction instr recent payer]) stx = Inr sg \<and>
           txErrGroup (client w') =
             (txErrGroup (client w))
               \<lparr>pending := pending (txErrGroup (client w)) @ [(sg, CommitmentConfirmed)]\<rparr> \<and>
           (\<forall>w2 i.
              i < length (pending (txErrGroup (client w2))) \<longrightarrow>
              pending (txErrGroup (client w2)) ! i = (sg, CommitmentConfirmed) \<longrightarrow>
              (\<exists>r. r = (case SignatureSubscribe en (trace w2) sg CommitmentConfirmed of
                          Inl m \<Rightarrow> Some (TransportError m)
                        | Inr sub \<Rightarrow>
                            (case Recv en
                                    (trace w2 @ [EvSignatureSubscribe sg CommitmentConfirmed])
                                    sub of
                               Inl m \<Rightarrow> Some (TransportError m)
                             | Inr res \<Rightarrow> map_option ConfirmationFailed (value_err res))) \<and>
                   added w2 (run_pending en i w2) =
                     (case SignatureSubscribe en (trace w2) sg CommitmentConfirmed of
                        Inl m \<Rightarrow> [EvSignatureSubscribe sg CommitmentConfirmed]
                      | Inr sub \<Rightarrow> [EvSignatureSubscribe sg CommitmentConfirmed, EvRecv sub,
                                     EvUnsubscribe sub]) \<and>
                   completed (txErrGroup (client (run_pending en i w2))) =
                     completed (txErrGroup (client w2)) @ [((sg, CommitmentConfirmed), r)] \<and>
                   err (txErrGroup (client (run_pending en i w2))) =
                     (case err (txErrGroup (client w2)) of Some e \<Rightarrow> Some e | None \<Rightarrow> r)))"
proof -
  from ok obtain recent tx stx sg where
    "GetRecentBlockhash en (trace w) CommitmentFinalized = Inr recent"
    "NewTransaction en instr recent payer = Inr tx"
    "Sign en signerFunc tx = Inr stx"
    and send: "SendTransaction en
             (trace w @ [EvGetRecentBlockhash CommitmentFinalized,
                         EvNewTransaction instr recent payer]) stx = Inr sg"
    and w': "w' = queueTX sg CommitmentConfirmed
              (emit (EvSendTransaction stx) (emit (EvNewTransaction instr recent payer)
                 (emit (EvGetRecentBlockhash CommitmentFinalized) w)))"
    by (auto simp: TXAsync_def emit_def Let_def split: sum.splits option.splits)
  have a: "added w w' = [EvGetRecentBlockhash CommitmentFinalized,
                         EvNewTransaction instr recent payer, EvSendTransaction stx]"
    by (simp add: w' queueTX_def emit_def added_def)
  have g: "txErrGroup (client w') =
             (txErrGroup (client w))
               \<lparr>pending := pending (txErrGroup (client w)) @ [(sg, CommitmentConfirmed)]\<rparr>"
    by (simp add: w' queueTX_def emit_def Go_def)
  have r: "\<exists>r. r = (case SignatureSubscribe en (trace w2) sg CommitmentConfirmed of
                          Inl m \<Rightarrow> Some (TransportError m)
                        | Inr sub \<Rightarrow>
                            (case Recv en
                                    (trace w2 @ [EvSignatureSubscribe sg CommitmentConfirmed])
                                    sub of
                               Inl m \<Rightarrow> Some (TransportError m)
                             | Inr res \<Rightarrow> map_option ConfirmationFailed (value_err res))) \<and>
                   added w2 (run_pending en i w2) =
                     (case SignatureSubscribe en (trace w2) sg CommitmentConfirmed of
                        Inl m \<Rightarrow> [EvSignatureSubscribe sg CommitmentConfirmed]
                      | Inr sub \<Rightarrow> [EvSignatureSubscribe sg CommitmentConfirmed, EvRecv sub,
                                     EvUnsubscribe sub]) \<and>
                   completed (txErrGroup (client (run_pending en i w2))) =
                     completed (txErrGroup (client w2)) @ [((sg, CommitmentConfirmed), r)] \<and>
                   err (txErrGroup (client (run_pending en i w2))) =
                     (case err (txErrGroup (client w2)) of Some e \<Rightarrow> Some e | None \<Rightarrow> r)"
    if "i < length (pending (txErrGroup (client w2)))"
      "pending (txErrGroup (client w2)) ! i = (sg, CommitmentConfirmed)"
    for w2 i
    using run_pending_task [OF that, of en] by (simp cong: option.case_cong)
  from a send g r show ?thesis
    by blast
qed

theorem TXAsync_registers_confirmation_task_witness:
  "TXAsync flaky_ledger ''second'' [''transfer 2''] (holds_key ''bob'' ''bob-key'') ''bob''
          new_world
     = (None, snd (TXAsync flaky_ledger ''second'' [''transfer 2''] (holds_key ''bob'' ''bob-key'')
                     ''bob'' new_world)) \<and>
   subscriptions (added new_world
      (snd (TXAsync flaky_ledger ''second'' [''transfer 2''] (holds_key ''bob'' ''bob-key'')
                     ''bob'' new_world))) = [] \<and>
   pending (txErrGroup (client
      (snd (TXAsync flaky_ledger ''second'' [''transfer 2''] (holds_key ''bob'' ''bob-key'')
                     ''bob'' new_world)))) = [(''sig:bob-key'', CommitmentConfirmed)] \<and>
   added (snd (TXAsync flaky_ledger ''second'' [''transfer 2''] (holds_key ''bob'' ''bob-key'')
                     ''bob'' new_world))
      (run_pending flaky_ledger 0
         (snd (TXAsync flaky_ledger ''second'' [''transfer 2''] (holds_key ''bob'' ''bob-key'')
                     ''bob'' new_world)))
     = [EvSignatureSubscribe ''sig:bob-key'' CommitmentConfirmed, EvRecv 4, EvUnsubscribe 4] \<and>
   err (txErrGroup (client (run_pending flaky_ledger 0
      (snd (TXAsync flaky_ledger ''second'' [''transfer 2''] (holds_key ''bob'' ''bob-key'')
                     ''bob'' new_world))))) = Some (ConfirmationFailed ''InstructionError'')"
  using TXAsync_registers_confirmation_task [of flaky_ledger "''second''" "[''transfer 2'']" "holds_key ''bob'' ''bob-key''"
      "''bob''" new_world
      "snd (TXAsync flaky_ledger ''second'' [''transfer 2''] (holds_key ''bob'' ''bob-key'')
                     ''bob'' new_world)"]
  by (simp add: flaky_ledger_def run_defs)



section \<open>Properties of the chain identity\<close>

lemma ChainID_ok:
  "GetGenesisHash en tr = Inr h \<Longrightarrow> ChainID en k tr = (Inr (network_of k h), tr @ [EvGetGenesisHash])"
  by (simp add: ChainID_def)

text \<open>
  C5.  \<open>ChainID\<close> asks the transport once per call.  When the three known genesis
  hashes are different from each other, a devnet, testnet or mainnet hash gives the name
  of its network and any other hash gives "localnet"; and four calls in a row that are
  answered with the devnet, testnet and mainnet hashes and with an unknown hash give
  "devnet", "testnet", "mainnet" and "localnet", after four requests to the transport.
\<close>

theorem ChainID_names_network:
  assumes known: "distinct [DevnetGenesisHash k, TestnetGenesisHash k, MainnetGenesisHash k]"
  shows "snd (ChainID en k tr) = tr @ [EvGetGenesisHash] \<and>
    (GetGenesisHash en tr = Inr (DevnetGenesisHash k) \<longrightarrow> fst (ChainID en k tr) = Inr ''devnet'') \<and>
    (GetGenesisHash en tr = Inr (TestnetGenesisHash k) \<longrightarrow> fst (ChainID en k tr) = Inr ''testnet'') \<and>
    (GetGenesisHash en tr = Inr (MainnetGenesisHash k) \<longrightarrow> fst (ChainID en k tr) = Inr ''mainnet'') \<and>
    (\<forall>h. GetGenesisHash en tr = Inr h \<longrightarrow>
          h \<notin> {DevnetGenesisHash k, TestnetGenesisHash k, MainnetGenesisHash k} \<longrightarrow>
          fst (ChainID en k tr) = Inr ''localnet'') \<and>
    (\<forall>h. GetGenesisHash en tr = Inr (DevnetGenesisHash k) \<longrightarrow>
          GetGenesisHash en (tr @ [EvGetGenesisHash]) = Inr (TestnetGenesisHash k) \<longrightarrow>
          GetGenesisHash en (tr @ [EvGetGenesisHash, EvGetGenesisHash])
            = Inr (MainnetGenesisHash k) \<longrightarrow>
          GetGenesisHash en (tr @ [EvGetGenesisHash, EvGetGenesisHash, EvGetGenesisHash])
            = Inr h \<longrightarrow>
          h \<notin> {DevnetGenesisHash k, TestnetGenesisHash k, MainnetGenesisHash k} \<longrightarrow>
          ChainID_calls en k 4 tr =
            ([Inr ''devnet'', Inr ''testnet'', Inr ''mainnet'', Inr ''localnet''],
             tr @ [EvGetGenesisHash, EvGetGenesisHash, EvGetGenesisHash, EvGetGenesisHash]))"
proof -
  have names: "network_of k (DevnetGenesisHash k) = ''devnet''"
    "network_of k (TestnetGenesisHash k) = ''testnet''"
    "network_of k (MainnetGenesisHash k) = ''mainnet''"
    using known by (auto simp: network_of_def)
  have other: "network_of k h = ''localnet''"
    if "h \<notin> {DevnetGenesisHash k, TestnetGenesisHash k, MainnetGenesisHash k}" for h
    using that by (simp add: network_of_def)
  have four: "ChainID_calls en k 4 tr =
            ([Inr ''devnet'', Inr ''testnet'', Inr ''mainnet'', Inr ''localnet''],
             tr @ [EvGetGenesisHash, EvGetGenesisHash, EvGetGenesisHash, EvGetGenesisHash])"
    if "GetGenesisHash en tr = Inr (DevnetGenesisHash k)"
      "GetGenesisHash en (tr @ [EvGetGenesisHash]) = Inr (TestnetGenesisHash k)"
      "GetGenesisHash en (tr @ [EvGetGenesisHash, EvGetGenesisHash]) = Inr (MainnetGenesisHash k)"
      "GetGenesisHash en (tr @ [EvGetGenesisHash, EvGetGenesisHash, EvGetGenesisHash]) = Inr h"
      "h \<notin> {DevnetGenesisHash k, TestnetGenesisHash k, MainnetGenesisHash k}" for h
  proof -
    have "ChainID_calls en k (Suc (Suc (Suc (Suc 0)))) tr =
            ([Inr ''devnet'', Inr ''testnet'', Inr ''mainnet'', Inr ''localnet''],
             tr @ [EvGetGenesisHash, EvGetGenesisHash, EvGetGenesisHash, EvGetGenesisHash])"
      using that(1-4) other [OF that(5)]
      by (simp add: ChainID_ok names)
    then show ?thesis
      by (simp add: numeral_eq_Suc)
  qed
  have q: "snd (ChainID en k tr) = tr @ [EvGetGenesisHash]"
    by (simp add: ChainID_def split: sum.splits)
  show ?thesis
    using q names other four
    by (auto simp: ChainID_ok simp del: insert_iff)
qed

theorem ChainID_names_network_witness:
  "distinct [DevnetGenesisHash sample_hashes, TestnetGenesisHash sample_hashes,
             MainnetGenesisHash sample_hashes] \<and>
   ''GH7ome3EiwEr7tu9JuTh2dpYWBJK3z69Xm1ZE3MEE6JC'' \<notin>
      {DevnetGenesisHash sample_hashes, TestnetGenesisHash sample_hashes,
       MainnetGenesisHash sample_hashes} \<and>
   ChainID_calls
     (mock_server [''devnet-genesis'', ''testnet-genesis'', ''mainnet-genesis'',
                   ''GH7ome3EiwEr7tu9JuTh2dpYWBJK3z69Xm1ZE3MEE6JC''])
     sample_hashes 4 []
    = ([Inr ''devnet'', Inr ''testnet'', Inr ''mainnet'', Inr ''localnet''],
       [EvGetGenesisHash, EvGetGenesisHash, EvGetGenesisHash, EvGetGenesisHash])"
  using ChainID_names_network [of sample_hashes
      "mock_server [''devnet-genesis'', ''testnet-genesis'', ''mainnet-genesis'',
                   ''GH7ome3EiwEr7tu9JuTh2dpYWBJK3z69Xm1ZE3MEE6JC'']" "[]"]
  by (simp add: sample_hashes_def mock_server_def validator_def)

section \<open>Properties of construction and wallets\<close>

text \<open>
  C9 as stated fails: \<open>NewClient\<close> accepts a configuration whose RPC endpoint is the
  empty string, and with no endpoints at all it panics on \<open>cfg.URLs[0]\<close> and returns
  no error.
\<close>

theorem NewClient_unchecked_config_counterexample:
  "NewClient validator \<lparr>URLs = ['''', ''ws://localhost:8900''], PrivateKeys = []\<rparr> []
     = Inr (Inr \<lparr>client =
                  \<lparr>Config = \<lparr>URLs = ['''', ''ws://localhost:8900''], PrivateKeys = []\<rparr>,
                   Wallets = [], DefaultWallet = None,
                   txErrGroup = \<lparr>pending = [], completed = [], err = None\<rparr>,
                   queueTransactions = False, RPC = '''', WS = 7\<rparr>,
                trace = [EvConnect ''ws://localhost:8900'']\<rparr>) \<and>
   NewClient validator \<lparr>URLs = [], PrivateKeys = []\<rparr> [] = Inl (IndexOutOfRange 0 0)"
  by (simp add: NewClient_def validator_def)

text \<open>
  C9 (amended).  Given two endpoints, \<open>NewClient\<close> connects to the subscription endpoint
  \<open>URLs[1]\<close> during construction and returns an error exactly when that connection
  fails, the error being the one of the connection.  Otherwise it returns a client bound
  to both endpoints.  The RPC endpoint \<open>URLs[0]\<close> is not examined: replacing it by any
  string leaves success and failure of the constructor unchanged.
\<close>

theorem NewClient_connects_eagerly:
  assumes two: "2 \<le> length (URLs cfg)"
  shows "constructor_failed (NewClient en cfg tr) = (\<exists>m. Connect en tr (URLs cfg ! 1) = Inl m) \<and>
         (\<forall>m. Connect en tr (URLs cfg ! 1) = Inl m \<longrightarrow>
               NewClient en cfg tr = Inr (Inl (TransportError m))) \<and>
         (\<forall>wsc. Connect en tr (URLs cfg ! 1) = Inr wsc \<longrightarrow>
            (\<exists>w. NewClient en cfg tr = Inr (Inr w) \<and> trace w = tr @ [EvConnect (URLs cfg ! 1)] \<and>
                 WS (client w) = wsc \<and> RPC (client w) = URLs cfg ! 0)) \<and>
         (\<forall>u. constructor_failed (NewClient en (cfg\<lparr>URLs := (URLs cfg)[0 := u]\<rparr>) tr)
               = constructor_failed (NewClient en cfg tr))"
  using two by (auto simp: NewClient_def added_def split: sum.splits)

theorem NewClient_connects_eagerly_witness:
  "2 \<le> length (URLs test_config) \<and>
   NewClient (validator\<lparr>Connect := \<lambda>tr url. Inl ''connection refused''\<rparr>) test_config []
     = Inr (Inl (TransportError ''connection refused'')) \<and>
   NewClient validator test_config [] = Inr (Inr new_world)"
  using NewClient_connects_eagerly [of test_config "validator\<lparr>Connect := \<lambda>tr url. Inl ''connection refused''\<rparr>" "[]"]
  by (simp add: test_config_def validator_def NewClient_def new_world_def)













end
